theory Spec2Isabelle
  imports Complex_Main "HOL-Library.Sublist"
begin

section \<open>JavaScript values\<close>

text \<open>
  A JavaScript number is modelled as an exact rational extended with the special values of
  IEEE 754 that the code can observe: \<open>NaN\<close>, the two infinities and the negative zero
  (\<open>Fin 0\<close> is the positive zero). Rounding of finite values to binary64 and overflow of
  finite arithmetic are not modelled: a finite result is the exact quotient, product or
  difference.
\<close>

datatype jsnum = NaN | PosInf | NegInf | NegZero | Fin rat

definition is_zero :: "jsnum \<Rightarrow> bool" where
  "is_zero x = (x = NegZero \<or> x = Fin 0)"

definition is_inf :: "jsnum \<Rightarrow> bool" where
  "is_inf x = (x = PosInf \<or> x = NegInf)"

definition is_neg :: "jsnum \<Rightarrow> bool" where
  "is_neg x = (case x of NegInf \<Rightarrow> True | NegZero \<Rightarrow> True | Fin q \<Rightarrow> q < 0 | _ \<Rightarrow> False)"

definition val :: "jsnum \<Rightarrow> rat" where
  "val x = (case x of Fin q \<Rightarrow> q | _ \<Rightarrow> 0)"

definition mk_zero :: "bool \<Rightarrow> jsnum" where
  "mk_zero neg = (if neg then NegZero else Fin 0)"

definition mk_inf :: "bool \<Rightarrow> jsnum" where
  "mk_inf neg = (if neg then NegInf else PosInf)"

definition isNaN :: "jsnum \<Rightarrow> bool" where
  "isNaN x = (x = NaN)"

text \<open>The operator \<open>/\<close> on numbers.\<close>

definition js_div :: "jsnum \<Rightarrow> jsnum \<Rightarrow> jsnum" where
  "js_div x y =
     (if x = NaN \<or> y = NaN then NaN
      else if is_inf x \<and> is_inf y then NaN
      else if is_zero x \<and> is_zero y then NaN
      else if is_inf x then mk_inf (is_neg x \<noteq> is_neg y)
      else if is_inf y then mk_zero (is_neg x \<noteq> is_neg y)
      else if is_zero y then mk_inf (is_neg x \<noteq> is_neg y)
      else if is_zero x then mk_zero (is_neg x \<noteq> is_neg y)
      else Fin (val x / val y))"

text \<open>The operator \<open>*\<close> on numbers.\<close>

definition js_mul :: "jsnum \<Rightarrow> jsnum \<Rightarrow> jsnum" where
  "js_mul x y =
     (if x = NaN \<or> y = NaN then NaN
      else if (is_inf x \<and> is_zero y) \<or> (is_zero x \<and> is_inf y) then NaN
      else if is_inf x \<or> is_inf y then mk_inf (is_neg x \<noteq> is_neg y)
      else if is_zero x \<or> is_zero y then mk_zero (is_neg x \<noteq> is_neg y)
      else Fin (val x * val y))"

text \<open>The operator \<open>-\<close> on numbers; a zero difference is negative only for \<open>-0 - +0\<close>.\<close>

definition js_sub :: "jsnum \<Rightarrow> jsnum \<Rightarrow> jsnum" where
  "js_sub x y =
     (if x = NaN \<or> y = NaN then NaN
      else if is_inf x \<and> is_inf y then (if x = y then NaN else x)
      else if is_inf x then x
      else if is_inf y then mk_inf (y = PosInf)
      else if val x - val y = 0 then mk_zero (x = NegZero \<and> y = Fin 0)
      else Fin (val x - val y))"

text \<open>The comparison \<open>x > y\<close>: false as soon as one side is \<open>NaN\<close>; the zeros are equal.\<close>

definition js_gt :: "jsnum \<Rightarrow> jsnum \<Rightarrow> bool" where
  "js_gt x y =
     (if x = NaN \<or> y = NaN then False
      else if x = PosInf then y \<noteq> PosInf
      else if y = NegInf then x \<noteq> NegInf
      else if x = NegInf \<or> y = PosInf then False
      else val x > val y)"

text \<open>\<open>Math.min\<close> of two numbers: \<open>NaN\<close> if either is, and \<open>-0\<close> is below \<open>+0\<close>.\<close>

definition Math_min :: "jsnum \<Rightarrow> jsnum \<Rightarrow> jsnum" where
  "Math_min x y =
     (if x = NaN \<or> y = NaN then NaN
      else if js_gt x y then y
      else if js_gt y x then x
      else if x = NegZero then x else y)"

text \<open>\<open>Math.ceil\<close>: a negative value above \<open>-1\<close> gives the negative zero.\<close>

definition Math_ceil :: "jsnum \<Rightarrow> jsnum" where
  "Math_ceil x =
     (case x of
        Fin q \<Rightarrow> (if \<lceil>q\<rceil> = 0 \<and> q < 0 then NegZero else Fin (of_int \<lceil>q\<rceil>))
      | _ \<Rightarrow> x)"

text \<open>
  Strings are lists of 8-bit code units. \<open>js_whitespace\<close> is the white space and line
  terminator class of the language restricted to that range (what \<open>\s\<close> matches and what
  \<open>parseInt\<close> and \<open>parseFloat\<close> skip).
\<close>

definition js_whitespace :: "char \<Rightarrow> bool" where
  "js_whitespace c =
     (c \<in> set [CHR 0x09, CHR 0x0A, CHR 0x0B, CHR 0x0C, CHR 0x0D, CHR 0x20, CHR 0xA0])"

definition is_digit :: "char \<Rightarrow> bool" where
  "is_digit c = (c \<in> set ''0123456789'')"

definition digit_val :: "char \<Rightarrow> nat" where
  "digit_val c = of_char c - 48"

definition digits_val :: "string \<Rightarrow> nat" where
  "digits_val ds = foldl (\<lambda>acc c. acc * 10 + digit_val c) 0 ds"

text \<open>
  \<open>parseInt(s, 10)\<close>: skip leading white space, read an optional sign, then the longest
  run of decimal digits; no digit gives \<open>NaN\<close>, and a zero keeps the sign. The value is
  the exact integer: the rounding of integers above \<open>2^53\<close> and the infinity that a run
  of more than 308 digits gives are not modelled.
\<close>

definition parseInt :: "string \<Rightarrow> jsnum" where
  "parseInt s =
     (let t = dropWhile js_whitespace s;
          neg = (t \<noteq> [] \<and> hd t = CHR ''-'');
          u = (if t \<noteq> [] \<and> (hd t = CHR ''-'' \<or> hd t = CHR ''+'') then tl t else t);
          z = takeWhile is_digit u
      in if z = [] then NaN
         else if digits_val z = 0 then mk_zero neg
         else Fin ((if neg then - 1 else 1) * of_nat (digits_val z)))"

text \<open>\<open>s.split(d)\<close> for a one-character separator: the empty string gives one empty part.\<close>

fun split_on :: "char \<Rightarrow> string \<Rightarrow> string list" where
  "split_on d [] = [[]]"
| "split_on d (c # cs) =
     (if c = d then [] # split_on d cs
      else (case split_on d cs of p # ps \<Rightarrow> (c # p) # ps | [] \<Rightarrow> [[c]]))"

text \<open>\<open>s.includes(sub)\<close>: \<open>sub\<close> occurs in \<open>s\<close> as a contiguous block.\<close>

fun str_includes :: "string \<Rightarrow> string \<Rightarrow> bool" where
  "str_includes [] sub = (sub = [])"
| "str_includes (c # cs) sub = (prefix sub (c # cs) \<or> str_includes cs sub)"

section \<open>The data model (types.ts)\<close>

record FFprobeSideData =
  side_data_type :: "string option"

record FFprobeStream =
  codec_name :: string
  codec_type :: string
  profile :: "string option"
  width :: "int option"
  height :: "int option"
  pix_fmt :: "string option"
  color_space :: "string option"
  color_transfer :: "string option"
  color_primaries :: "string option"
  avg_frame_rate :: "string option"
  bit_rate :: "string option"
  side_data_list :: "FFprobeSideData list option"

datatype HDRType = SDR | HDR10 | HDR10Plus | DolbyVision

record VideoInfo =
  v_width :: int
  v_height :: int
  v_codec :: string
  v_profile :: string
  pixelFormat :: string
  frameRate :: jsnum
  v_bitrate :: jsnum
  hdrType :: HDRType
  colorPrimaries :: "string option"
  colorTransfer :: "string option"
  colorSpace :: "string option"

datatype RenditionQuality = Q2160p | Q1440p | Q1080p | Q720p | Q480p

record Rendition =
  quality :: RenditionQuality
  r_width :: int
  r_height :: int
  vp9Bitrate :: int
  hevcBitrate :: int
  maxrate :: int
  bufsize :: int
  preserveHDR :: bool

section \<open>The media prober (probe.ts, given as src/unnamed/part_000)\<close>

text \<open>\<open>a || b\<close> on an optional string: an absent or empty \<open>a\<close> gives \<open>b\<close>.\<close>

definition str_or :: "string option \<Rightarrow> string \<Rightarrow> string" where
  "str_or a b = (case a of None \<Rightarrow> b | Some s \<Rightarrow> if s = [] then b else s)"

definition hasDolbyVision :: "FFprobeSideData list \<Rightarrow> bool" where
  "hasDolbyVision sds =
     list_ex (\<lambda>sd. side_data_type sd = Some ''DOVI configuration record'' \<or>
                   (case side_data_type sd of None \<Rightarrow> False
                    | Some t \<Rightarrow> str_includes t ''Dolby Vision'')) sds"

definition hasHDR10Plus :: "FFprobeSideData list \<Rightarrow> bool" where
  "hasHDR10Plus sds =
     list_ex (\<lambda>sd. side_data_type sd = Some ''HDR Dynamic Metadata SMPTE2094-40 (HDR10+)'' \<or>
                   (case side_data_type sd of None \<Rightarrow> False
                    | Some t \<Rightarrow> str_includes t ''SMPTE2094-40'')) sds"

definition detectHDRType :: "FFprobeStream \<Rightarrow> HDRType" where
  "detectHDRType stream =
     (let isBT2020 = (color_primaries stream = Some ''bt2020'');
          isPQ = (color_transfer stream = Some ''smpte2084'');
          static = (if isBT2020 \<and> isPQ then HDR10 else SDR)
      in case side_data_list stream of
           None \<Rightarrow> static
         | Some sds \<Rightarrow>
             if hasDolbyVision sds then DolbyVision
             else if hasHDR10Plus sds then HDR10Plus
             else static)"

text \<open>
  The frame rate of \<open>parseVideoInfo\<close>: the two parts of \<open>avg_frame_rate\<close> (or of
  \<open>24/1\<close>), the second one replaced by \<open>1\<close> when it is absent or empty, divided, and
  \<open>24\<close> in place of a \<open>NaN\<close> quotient.
\<close>

definition parseFrameRate :: "string option \<Rightarrow> jsnum" where
  "parseFrameRate afr =
     (let frameRateParts = split_on CHR ''/'' (str_or afr ''24/1'');
          den = (if 1 < length frameRateParts then str_or (Some (frameRateParts ! 1)) ''1''
                 else ''1'');
          frameRate = js_div (parseInt (frameRateParts ! 0)) (parseInt den)
      in if isNaN frameRate then Fin 24 else frameRate)"

definition parseVideoInfo :: "FFprobeStream \<Rightarrow> VideoInfo" where
  "parseVideoInfo stream =
     \<lparr> v_width = (case width stream of None \<Rightarrow> 0 | Some w \<Rightarrow> w),
       v_height = (case height stream of None \<Rightarrow> 0 | Some h \<Rightarrow> h),
       v_codec = codec_name stream,
       v_profile = str_or (profile stream) ''unknown'',
       pixelFormat = str_or (pix_fmt stream) ''unknown'',
       frameRate = parseFrameRate (avg_frame_rate stream),
       v_bitrate = parseInt (str_or (bit_rate stream) ''0''),
       hdrType = detectHDRType stream,
       colorPrimaries = color_primaries stream,
       colorTransfer = color_transfer stream,
       colorSpace = color_space stream \<rparr>"

text \<open>An example input: a 4K stream with a Dolby Vision record and BT.2020/PQ color metadata.\<close>

definition dv_and_pq_stream :: FFprobeStream where
  "dv_and_pq_stream =
     \<lparr> codec_name = ''hevc'', codec_type = ''video'', profile = None,
       width = Some 3840, height = Some 2160, pix_fmt = Some ''yuv420p10le'',
       color_space = Some ''bt2020nc'', color_transfer = Some ''smpte2084'',
       color_primaries = Some ''bt2020'', avg_frame_rate = Some ''24000/1001'',
       bit_rate = None,
       side_data_list = Some [\<lparr> side_data_type = Some ''DOVI configuration record'' \<rparr>] \<rparr>"

section \<open>The rendition ladder (renditions.ts)\<close>

definition RENDITION_LADDER :: "Rendition list" where
  "RENDITION_LADDER =
     [ \<lparr> quality = Q2160p, r_width = 3840, r_height = 2160, vp9Bitrate = 13500,
         hevcBitrate = 11000, maxrate = 20000, bufsize = 27000, preserveHDR = True \<rparr>,
       \<lparr> quality = Q1440p, r_width = 2560, r_height = 1440, vp9Bitrate = 9000,
         hevcBitrate = 7000, maxrate = 13500, bufsize = 18000, preserveHDR = True \<rparr>,
       \<lparr> quality = Q1080p, r_width = 1920, r_height = 1080, vp9Bitrate = 6000,
         hevcBitrate = 5000, maxrate = 9000, bufsize = 12000, preserveHDR = True \<rparr>,
       \<lparr> quality = Q720p, r_width = 1280, r_height = 720, vp9Bitrate = 3250,
         hevcBitrate = 2500, maxrate = 5000, bufsize = 6500, preserveHDR = False \<rparr>,
       \<lparr> quality = Q480p, r_width = 854, r_height = 480, vp9Bitrate = 1500,
         hevcBitrate = 1150, maxrate = 2250, bufsize = 3000, preserveHDR = False \<rparr> ]"

definition buildRenditionLadder :: "VideoInfo \<Rightarrow> Rendition list" where
  "buildRenditionLadder sourceVideo =
     filter (\<lambda>rendition. r_height rendition \<le> v_height sourceVideo \<or>
                          r_width rendition \<le> v_width sourceVideo) RENDITION_LADDER"

section \<open>Hardware capabilities (hw-detect.ts, the second part of src/scripts/lib/renditions.ts)\<close>

datatype HWAccelMethod = nvidia | qsv | amf | vaapi | videotoolbox | software

record HWAccelInfo =
  "method" :: HWAccelMethod
  displayName :: string
  hevcEncoder :: string
  vp9Encoder :: string
  hwaccelFlag :: "string option"
  hwaccelOutputFormat :: "string option"
  scaleFilter :: string
  supportsVP9HW :: "bool option"
  supportsHEVC10bit :: "bool option"
  supportsVP910bit :: "bool option"

record HybridHWAccel =
  hevc :: HWAccelInfo
  vp9 :: HWAccelInfo

text \<open>An optional boolean field used as a condition: absent counts as false.\<close>

definition truthy :: "bool option \<Rightarrow> bool" where
  "truthy b = (b = Some True)"

definition HW_ACCEL_CONFIGS :: "HWAccelMethod \<Rightarrow> HWAccelInfo option" where
  "HW_ACCEL_CONFIGS m =
     (case m of
        nvidia \<Rightarrow> Some
          \<lparr> method = nvidia, displayName = ''NVIDIA NVENC'', hevcEncoder = ''hevc_nvenc'',
            vp9Encoder = ''libvpx-vp9'', hwaccelFlag = Some ''cuda'',
            hwaccelOutputFormat = Some ''cuda'', scaleFilter = ''scale_cuda'',
            supportsVP9HW = Some False, supportsHEVC10bit = Some True,
            supportsVP910bit = Some False \<rparr>
      | qsv \<Rightarrow> Some
          \<lparr> method = qsv, displayName = ''Intel Quick Sync'', hevcEncoder = ''hevc_qsv'',
            vp9Encoder = ''vp9_qsv'', hwaccelFlag = Some ''qsv'',
            hwaccelOutputFormat = Some ''qsv'', scaleFilter = ''scale_qsv'',
            supportsVP9HW = Some True, supportsHEVC10bit = Some True,
            supportsVP910bit = Some False \<rparr>
      | amf \<Rightarrow> Some
          \<lparr> method = amf, displayName = ''AMD AMF'', hevcEncoder = ''hevc_amf'',
            vp9Encoder = ''libvpx-vp9'', hwaccelFlag = Some ''auto'',
            hwaccelOutputFormat = Some ''d3d11va'', scaleFilter = ''scale'',
            supportsVP9HW = Some False, supportsHEVC10bit = Some True,
            supportsVP910bit = Some False \<rparr>
      | vaapi \<Rightarrow> Some
          \<lparr> method = vaapi, displayName = ''VA-API (Linux)'', hevcEncoder = ''hevc_vaapi'',
            vp9Encoder = ''vp9_vaapi'', hwaccelFlag = Some ''vaapi'',
            hwaccelOutputFormat = Some ''vaapi'', scaleFilter = ''scale_vaapi'',
            supportsVP9HW = Some True, supportsHEVC10bit = Some True,
            supportsVP910bit = Some False \<rparr>
      | videotoolbox \<Rightarrow> Some
          \<lparr> method = videotoolbox, displayName = ''VideoToolbox (macOS)'',
            hevcEncoder = ''hevc_videotoolbox'', vp9Encoder = ''libvpx-vp9'',
            hwaccelFlag = Some ''videotoolbox'',
            hwaccelOutputFormat = Some ''videotoolbox_vld'', scaleFilter = ''scale'',
            supportsVP9HW = Some False, supportsHEVC10bit = Some True,
            supportsVP910bit = Some False \<rparr>
      | software \<Rightarrow> None)"

definition SOFTWARE_CONFIG :: HWAccelInfo where
  "SOFTWARE_CONFIG =
     \<lparr> method = software, displayName = ''Software (CPU)'', hevcEncoder = ''libx265'',
       vp9Encoder = ''libvpx-vp9'', hwaccelFlag = None, hwaccelOutputFormat = None,
       scaleFilter = ''scale'', supportsVP9HW = None, supportsHEVC10bit = None,
       supportsVP910bit = None \<rparr>"

definition hasEncoder :: "string list \<Rightarrow> string \<Rightarrow> bool" where
  "hasEncoder encoders name = list_ex (\<lambda>line. str_includes line name) encoders"

text \<open>
  \<open>detectHWAcceleration\<close>, as a function of what the two queries of the encoder
  returned: the acceleration methods and the lines of the encoder list.
\<close>

definition detectHWAcceleration :: "string list \<Rightarrow> string list \<Rightarrow> HWAccelInfo list" where
  "detectHWAcceleration hwAccels encoders =
     (if ''cuda'' \<in> set hwAccels \<and> hasEncoder encoders ''hevc_nvenc''
      then [the (HW_ACCEL_CONFIGS nvidia)] else [])
     @ (if ''qsv'' \<in> set hwAccels \<and> hasEncoder encoders ''hevc_qsv''
        then [the (HW_ACCEL_CONFIGS qsv)] else [])
     @ (if (''d3d11va'' \<in> set hwAccels \<or> ''dxva2'' \<in> set hwAccels)
            \<and> hasEncoder encoders ''hevc_amf''
        then [the (HW_ACCEL_CONFIGS amf)] else [])
     @ (if ''vaapi'' \<in> set hwAccels \<and> hasEncoder encoders ''hevc_vaapi''
        then [the (HW_ACCEL_CONFIGS vaapi)] else [])
     @ (if ''videotoolbox'' \<in> set hwAccels \<and> hasEncoder encoders ''hevc_videotoolbox''
        then [the (HW_ACCEL_CONFIGS videotoolbox)] else [])
     @ [SOFTWARE_CONFIG]"

definition hevcPriority :: "HWAccelMethod list" where
  "hevcPriority = [nvidia, qsv, amf, vaapi, videotoolbox, software]"

definition vp9Priority :: "HWAccelMethod list" where
  "vp9Priority = [qsv, vaapi, software]"

text \<open>The first loop of \<open>buildHybridConfig\<close>: the first method of the list that some
  backend has, and the first backend with it.\<close>

fun findBestHevc :: "HWAccelMethod list \<Rightarrow> HWAccelInfo list \<Rightarrow> HWAccelInfo option" where
  "findBestHevc [] available = None"
| "findBestHevc (m # ms) available =
     (case find (\<lambda>a. method a = m) available of
        Some accel \<Rightarrow> Some accel
      | None \<Rightarrow> findBestHevc ms available)"

text \<open>The second loop: a backend found for a method is taken only if it reports hardware
  VP9 support or is the software one; otherwise the loop goes on to the next method.\<close>

fun findBestVP9 :: "HWAccelMethod list \<Rightarrow> HWAccelInfo list \<Rightarrow> HWAccelInfo option" where
  "findBestVP9 [] available = None"
| "findBestVP9 (m # ms) available =
     (case find (\<lambda>a. method a = m) available of
        Some accel \<Rightarrow>
          if truthy (supportsVP9HW accel) \<or> method accel = software then Some accel
          else findBestVP9 ms available
      | None \<Rightarrow> findBestVP9 ms available)"

definition bestHevc :: "HWAccelInfo list \<Rightarrow> HWAccelInfo" where
  "bestHevc available =
     (case findBestHevc hevcPriority available of
        Some a \<Rightarrow> a
      | None \<Rightarrow> SOFTWARE_CONFIG)"

definition bestVP9 :: "HWAccelInfo list \<Rightarrow> HWAccelInfo" where
  "bestVP9 available =
     (case findBestVP9 vp9Priority available of
        Some a \<Rightarrow> a
      | None \<Rightarrow>
          (case find (\<lambda>a. method a = software) available of
             Some a \<Rightarrow> a
           | None \<Rightarrow> SOFTWARE_CONFIG))"

definition buildHybridConfig :: "HWAccelInfo list \<Rightarrow> HybridHWAccel option" where
  "buildHybridConfig available =
     (if method (bestHevc available) \<noteq> method (bestVP9 available)
         \<and> truthy (supportsVP9HW (bestVP9 available))
      then Some \<lparr> hevc = bestHevc available, vp9 = bestVP9 available \<rparr>
      else None)"

definition createHybridDisplayInfo :: "HybridHWAccel \<Rightarrow> HWAccelInfo" where
  "createHybridDisplayInfo hybrid =
     \<lparr> method = software,
       displayName = ''Hybrid: '' @ displayName (hevc hybrid) @ '' (HEVC) + ''
                     @ displayName (vp9 hybrid) @ '' (VP9)'',
       hevcEncoder = hevcEncoder (hevc hybrid),
       vp9Encoder = vp9Encoder (vp9 hybrid),
       hwaccelFlag = None, hwaccelOutputFormat = None,
       scaleFilter = ''scale'',
       supportsVP9HW = supportsVP9HW (vp9 hybrid),
       supportsHEVC10bit = supportsHEVC10bit (hevc hybrid),
       supportsVP910bit = supportsVP910bit (vp9 hybrid) \<rparr>"

text \<open>The number of hardware backends of a list: the entries whose method is not software.\<close>

definition hardware_count :: "HWAccelInfo list \<Rightarrow> nat" where
  "hardware_count available = length (filter (\<lambda>a. method a \<noteq> software) available)"

section \<open>Streams, settings and jobs (types.ts)\<close>

datatype Codec = VP9 | HEVC

datatype TranscodeMode = dev | prod

record TranscodeSettings =
  mode :: TranscodeMode
  passes :: nat
  vp9Deadline :: string
  vp9CpuUsed :: int
  hevcPreset :: string
  x265Preset :: string

datatype AudioChannelLayout = stereo | surround51 | atmos

record AudioStream =
  a_index :: nat
  a_codec :: string
  channels :: int
  channelLayout :: AudioChannelLayout
  sampleRate :: jsnum
  a_bitrate :: jsnum
  a_language :: string
  a_title :: "string option"
  a_isDefault :: bool

datatype SubtitleType = standard | forced | sdh

record SubtitleStream =
  s_index :: nat
  s_codec :: string
  s_language :: string
  s_title :: "string option"
  s_type :: SubtitleType
  s_isDefault :: bool

record MediaInfo =
  filePath :: string
  fileName :: string
  duration :: jsnum
  size :: jsnum
  video :: VideoInfo
  audioStreams :: "AudioStream list"
  subtitleStreams :: "SubtitleStream list"

record TranscodeJob =
  j_rendition :: Rendition
  j_codec :: Codec
  j_inputPath :: string
  j_outputPath :: string
  j_hwAccel :: HWAccelInfo
  j_settings :: TranscodeSettings
  j_sourceInfo :: MediaInfo

record TranscodeProgress =
  p_job :: TranscodeJob
  p_pass :: nat
  p_frame :: jsnum
  p_totalFrames :: jsnum
  p_fps :: jsnum
  p_speed :: jsnum
  p_percent :: jsnum
  p_eta :: jsnum

section \<open>Text of numbers and names\<close>

text \<open>The decimal text of a natural number and of an integer, as a template literal
  prints them.\<close>

fun show_nat :: "nat \<Rightarrow> string" where
  "show_nat n =
     (if n < 10 then [''0123456789'' ! n]
      else show_nat (n div 10) @ [''0123456789'' ! (n mod 10)])"

declare show_nat.simps [simp del]

definition show_int :: "int \<Rightarrow> string" where
  "show_int i = (if i < 0 then ''-'' @ show_nat (nat (- i)) else show_nat (nat i))"

fun quality_str :: "RenditionQuality \<Rightarrow> string" where
  "quality_str Q2160p = ''2160p''"
| "quality_str Q1440p = ''1440p''"
| "quality_str Q1080p = ''1080p''"
| "quality_str Q720p = ''720p''"
| "quality_str Q480p = ''480p''"

fun codec_str :: "Codec \<Rightarrow> string" where
  "codec_str VP9 = ''vp9''"
| "codec_str HEVC = ''hevc''"

text \<open>\<open>codec.toUpperCase()\<close>.\<close>

fun codec_upper :: "Codec \<Rightarrow> string" where
  "codec_upper VP9 = ''VP9''"
| "codec_upper HEVC = ''HEVC''"

text \<open>\<open>s.slice(-n)\<close>: the last \<open>n\<close> characters, or all of \<open>s\<close> when it is shorter.\<close>

definition slice_last :: "nat \<Rightarrow> string \<Rightarrow> string" where
  "slice_last n s = drop (length s - n) s"

section \<open>The runtime: file system, subprocesses, callbacks\<close>

text \<open>
  What the encoder subprocess does is outside the program: the environment gives, for
  an argument list and the files that exist when it starts, the chunks it writes to its
  diagnostic stream, its exit status and the files that exist when it has ended. The
  environment also holds \<open>path.join\<close> and \<open>process.platform\<close>.
\<close>

record proc_result =
  stderr_chunks :: "string list"
  exitCode :: int
  files_after :: "string list"

record env =
  path_join :: "string \<Rightarrow> string \<Rightarrow> string"
  platform :: string
  ffmpeg :: "string list \<Rightarrow> string list \<Rightarrow> proc_result"

text \<open>
  The observable effects, in order: subprocesses spawned (with the program name first),
  sections opened in the log, and the calls of the four callbacks. The plain lines that
  the code writes to its log between them are not kept.
\<close>

datatype event =
    Spawn "string list"
  | LogSection string
  | OnProgress TranscodeProgress
  | OnPassComplete nat Codec RenditionQuality
  | OnComplete Codec RenditionQuality string
  | OnError Codec RenditionQuality string

record world =
  files :: "string list"
  events :: "event list"

definition emit :: "event \<Rightarrow> world \<Rightarrow> world" where
  "emit e w = w\<lparr>events := events w @ [e]\<rparr>"

text \<open>\<open>fs.access(p)\<close> succeeds.\<close>

definition file_exists :: "world \<Rightarrow> string \<Rightarrow> bool" where
  "file_exists w p = (p \<in> set (files w))"

text \<open>\<open>Bun.spawn(['ffmpeg', ...args])\<close> run to its end.\<close>

definition spawn_ffmpeg :: "env \<Rightarrow> string list \<Rightarrow> world \<Rightarrow> proc_result \<times> world" where
  "spawn_ffmpeg e args w =
     (let res = ffmpeg e args (files w)
      in (res, w\<lparr>files := files_after res, events := events w @ [Spawn (''ffmpeg'' # args)]\<rparr>))"

section \<open>The transcoder (transcoder.ts)\<close>

definition getTranscodeSettings :: "TranscodeMode \<Rightarrow> TranscodeSettings" where
  "getTranscodeSettings m =
     (if m = dev
      then \<lparr> mode = dev, passes = 1, vp9Deadline = ''realtime'', vp9CpuUsed = 8,
             hevcPreset = ''p1'', x265Preset = ''ultrafast'' \<rparr>
      else \<lparr> mode = prod, passes = 2, vp9Deadline = ''good'', vp9CpuUsed = 2,
             hevcPreset = ''p5'', x265Preset = ''medium'' \<rparr>)"

definition TONEMAP_FILTER_SOFTWARE :: string where
  "TONEMAP_FILTER_SOFTWARE =
     ''zscale=t=linear:npl=100,format=gbrpf32le,zscale=p=bt709,tonemap=tonemap=hable:desat=0,zscale=t=bt709:m=bt709:r=tv,format=yuv420p''"

definition buildScaleFilter :: "Rendition \<Rightarrow> HWAccelInfo \<Rightarrow> bool \<Rightarrow> Codec \<Rightarrow> string" where
  "buildScaleFilter rendition hwAccel needsTonemap codec =
     (let height = show_int (r_height rendition)
      in if needsTonemap then
           (if method hwAccel = nvidia \<and> codec = HEVC
            then TONEMAP_FILTER_SOFTWARE @ '',scale=-2:'' @ height @ '',hwupload_cuda''
            else if method hwAccel = qsv \<and> codec = VP9 \<and> truthy (supportsVP9HW hwAccel)
            then TONEMAP_FILTER_SOFTWARE @ '',scale=-2:'' @ height @ '',format=nv12''
            else if method hwAccel = vaapi \<and> codec = VP9 \<and> truthy (supportsVP9HW hwAccel)
            then TONEMAP_FILTER_SOFTWARE @ '',scale=-2:'' @ height
            else TONEMAP_FILTER_SOFTWARE @ '',scale=-2:'' @ height)
         else if method hwAccel = nvidia then ''scale_cuda=w=-2:h='' @ height
         else if method hwAccel = qsv then ''scale_qsv=w=-2:h='' @ height
         else if method hwAccel = vaapi then ''scale_vaapi=w=-2:h='' @ height
         else ''scale=-2:'' @ height)"

definition buildVP9Args ::
  "Rendition \<Rightarrow> TranscodeSettings \<Rightarrow> nat \<Rightarrow> string \<Rightarrow> HWAccelInfo \<Rightarrow> string list" where
  "buildVP9Args rendition settings pass passLogFile hwAccel =
     (let bitrate = show_int (vp9Bitrate rendition) @ ''k'';
          maxrate = show_int (maxrate rendition) @ ''k'';
          bufsize = show_int (bufsize rendition) @ ''k''
      in if method hwAccel = qsv \<and> truthy (supportsVP9HW hwAccel) then
           [''-c:v'', ''vp9_qsv'', ''-b:v'', bitrate, ''-maxrate'', maxrate,
            ''-bufsize'', bufsize, ''-g'', ''120'', ''-low_power'', ''1'']
         else if method hwAccel = vaapi \<and> truthy (supportsVP9HW hwAccel) then
           [''-c:v'', ''vp9_vaapi'', ''-b:v'', bitrate, ''-maxrate'', maxrate,
            ''-bufsize'', bufsize, ''-g'', ''120'', ''-keyint_min'', ''120'']
         else
           [''-c:v'', ''libvpx-vp9'', ''-b:v'', bitrate, ''-g'', ''120'',
            ''-keyint_min'', ''120'', ''-deadline'', vp9Deadline settings,
            ''-cpu-used'', show_int (vp9CpuUsed settings), ''-row-mt'', ''1'',
            ''-tile-columns'', ''2'', ''-tile-rows'', ''1'']
           @ (if passes settings = 2 then
                [''-pass'', show_nat pass, ''-passlogfile'', passLogFile]
                @ (if pass = 2 then [''-maxrate'', maxrate, ''-bufsize'', bufsize] else [])
              else [''-maxrate'', maxrate, ''-bufsize'', bufsize]))"

text \<open>The catalog bitrates are integers, so \<open>Math.floor(bitrate * 1.5)\<close> is
  \<open>(bitrate * 3) div 2\<close>.\<close>

definition buildHEVCArgs :: "Rendition \<Rightarrow> TranscodeSettings \<Rightarrow> HWAccelInfo \<Rightarrow> string list" where
  "buildHEVCArgs rendition settings hwAccel =
     (let bitrate = show_int (hevcBitrate rendition) @ ''k'';
          maxrate = show_int ((hevcBitrate rendition * 3) div 2) @ ''k'';
          bufsize = show_int (hevcBitrate rendition * 2) @ ''k''
      in if method hwAccel = nvidia then
           [''-c:v'', ''hevc_nvenc'', ''-b:v'', bitrate, ''-maxrate'', maxrate,
            ''-bufsize'', bufsize, ''-g'', ''120'', ''-keyint_min'', ''120'',
            ''-preset'', hevcPreset settings]
           @ (if mode settings = prod then [''-multipass'', ''fullres''] else [])
         else if method hwAccel = qsv then
           [''-c:v'', ''hevc_qsv'', ''-b:v'', bitrate, ''-maxrate'', maxrate,
            ''-bufsize'', bufsize, ''-g'', ''120'', ''-preset'',
            (if mode settings = prod then ''medium'' else ''veryfast'')]
         else if method hwAccel = amf then
           [''-c:v'', ''hevc_amf'', ''-b:v'', bitrate, ''-maxrate'', maxrate,
            ''-bufsize'', bufsize, ''-g'', ''120'', ''-quality'',
            (if mode settings = prod then ''balanced'' else ''speed'')]
         else if method hwAccel = vaapi then
           [''-c:v'', ''hevc_vaapi'', ''-b:v'', bitrate, ''-maxrate'', maxrate,
            ''-bufsize'', bufsize, ''-g'', ''120'']
         else if method hwAccel = videotoolbox then
           [''-c:v'', ''hevc_videotoolbox'', ''-b:v'', bitrate, ''-maxrate'', maxrate,
            ''-bufsize'', bufsize, ''-g'', ''120'']
         else
           [''-c:v'', ''libx265'', ''-b:v'', bitrate, ''-maxrate'', maxrate,
            ''-bufsize'', bufsize, ''-g'', ''120'', ''-keyint_min'', ''120'',
            ''-preset'', x265Preset settings, ''-x265-params'', ''log-level=error''])"

definition buildHWAccelInputArgs :: "HWAccelInfo \<Rightarrow> string list" where
  "buildHWAccelInputArgs hwAccel =
     (case hwaccelFlag hwAccel of
        None \<Rightarrow> []
      | Some flag \<Rightarrow>
          if flag \<noteq> [] \<and> method hwAccel \<noteq> software then
            [''-hwaccel'', flag]
            @ (case hwaccelOutputFormat hwAccel of
                 None \<Rightarrow> []
               | Some fmt \<Rightarrow> if fmt \<noteq> [] then [''-hwaccel_output_format'', fmt] else [])
          else [])"

definition getAudioBitrate :: "AudioStream \<Rightarrow> string" where
  "getAudioBitrate stream =
     (case channelLayout stream of
        atmos \<Rightarrow> ''768k''
      | surround51 \<Rightarrow> ''640k''
      | stereo \<Rightarrow> ''128k'')"

definition getAudioCodec :: "AudioStream \<Rightarrow> string" where
  "getAudioCodec stream = (if channelLayout stream = stereo then ''aac'' else ''eac3'')"

definition getOutputFileName :: "Rendition \<Rightarrow> Codec \<Rightarrow> string" where
  "getOutputFileName rendition codec =
     (let ext = (if codec = VP9 then ''webm'' else ''mp4'')
      in ''video_'' @ quality_str (quality rendition) @ ''_'' @ codec_str codec @ ''.'' @ ext)"

subsection \<open>The plan of a job\<close>

text \<open>The two decisions that \<open>transcodeRendition\<close> takes before it builds the filter
  chain, under the names of its local variables.\<close>

definition needsTonemap :: "Rendition \<Rightarrow> Codec \<Rightarrow> HWAccelInfo \<Rightarrow> MediaInfo \<Rightarrow> bool" where
  "needsTonemap rendition codec hwAccel mediaInfo =
     (let needs = (\<not> preserveHDR rendition \<and> hdrType (video mediaInfo) \<noteq> SDR)
      in if codec = VP9
            \<and> (method hwAccel = qsv \<or> method hwAccel = vaapi)
            \<and> truthy (supportsVP9HW hwAccel)
            \<and> hdrType (video mediaInfo) \<noteq> SDR
         then True
         else needs)"

definition useHwAccelInput :: "Codec \<Rightarrow> HWAccelInfo \<Rightarrow> bool \<Rightarrow> bool" where
  "useHwAccelInput codec hwAccel tonemap =
     (if codec = HEVC \<and> method hwAccel = nvidia then \<not> tonemap
      else if codec = HEVC \<and> \<not> tonemap then True
      else False)"

subsection \<open>Progress extraction\<close>

text \<open>
  The three patterns \<open>/frame=\s*(\d+)/\<close>, \<open>/fps=\s*([\d.]+)/\<close> and
  \<open>/speed=\s*([\d.]+)x/\<close> have one shape: a literal key, any white space, a non-empty
  run of characters of one class (the capture), then a literal tail. The white space and
  the capture are greedy, and since no character of the class is white space or starts the
  tail, the longest runs are the only way to match at a position. \<open>match_here\<close> is the
  match at the start of the text.
\<close>

definition match_here :: "string \<Rightarrow> (char \<Rightarrow> bool) \<Rightarrow> string \<Rightarrow> string \<Rightarrow> string option" where
  "match_here key cls tail s =
     (if prefix key s then
        (let r = dropWhile js_whitespace (drop (length key) s);
             cap = takeWhile cls r
         in if cap \<noteq> [] \<and> prefix tail (dropWhile cls r) then Some cap else None)
      else None)"

text \<open>\<open>s.match(re)\<close> for a pattern without the global flag: the capture of the match at
  the leftmost position where there is one.\<close>

fun str_match :: "string \<Rightarrow> (char \<Rightarrow> bool) \<Rightarrow> string \<Rightarrow> string \<Rightarrow> string option" where
  "str_match key cls tail [] = match_here key cls tail []"
| "str_match key cls tail (c # cs) =
     (case match_here key cls tail (c # cs) of
        Some cap \<Rightarrow> Some cap
      | None \<Rightarrow> str_match key cls tail cs)"

definition is_digit_or_dot :: "char \<Rightarrow> bool" where
  "is_digit_or_dot c = (is_digit c \<or> c = CHR ''.'')"

text \<open>
  \<open>parseFloat\<close> on a capture of \<open>[\d.]+\<close>: the longest prefix that is a decimal literal
  (digits, then possibly a point and digits; at least one digit in all), \<open>NaN\<close> when
  there is none. Signs, exponents and \<open>Infinity\<close> cannot occur in such a capture.
\<close>

definition parseFloat :: "string \<Rightarrow> jsnum" where
  "parseFloat s =
     (let ip = takeWhile is_digit s;
          rest = dropWhile is_digit s;
          fp = (if rest \<noteq> [] \<and> hd rest = CHR ''.'' then takeWhile is_digit (tl rest) else [])
      in if ip = [] \<and> fp = [] then NaN
         else Fin (of_nat (digits_val ip) + of_nat (digits_val fp) / 10 ^ length fp))"

text \<open>The snapshot built when the frame pattern matches the buffer.\<close>

definition progressOf :: "TranscodeJob \<Rightarrow> nat \<Rightarrow> jsnum \<Rightarrow> string \<Rightarrow> TranscodeProgress option" where
  "progressOf jb pass totalFrames stderrBuffer =
     (let frameMatch = str_match ''frame='' is_digit [] stderrBuffer;
          fpsMatch = str_match ''fps='' is_digit_or_dot [] stderrBuffer;
          speedMatch = str_match ''speed='' is_digit_or_dot ''x'' stderrBuffer
      in case frameMatch of
           None \<Rightarrow> None
         | Some fm \<Rightarrow>
             (let frame = parseInt fm;
                  fps = (case fpsMatch of Some c \<Rightarrow> parseFloat c | None \<Rightarrow> Fin 0);
                  speed = (case speedMatch of Some c \<Rightarrow> parseFloat c | None \<Rightarrow> Fin 1);
                  percent = Math_min (js_mul (js_div frame totalFrames) (Fin 100)) (Fin 100);
                  remainingFrames = js_sub totalFrames frame;
                  eta = (if js_gt fps (Fin 0) then js_div remainingFrames fps else Fin 0)
              in Some \<lparr> p_job = jb, p_pass = pass, p_frame = frame, p_totalFrames = totalFrames,
                        p_fps = fps, p_speed = speed, p_percent = percent, p_eta = eta \<rparr>))"

text \<open>
  The read loop of \<open>runPass\<close> over the chunks of the diagnostic stream: each chunk is
  appended to the buffer and to the full text, the buffer is matched, and a buffer longer
  than 10000 characters is cut to its last 1000. The result is the full text and the
  world with the progress callbacks made.
\<close>

fun readStderr ::
  "TranscodeJob \<Rightarrow> nat \<Rightarrow> jsnum \<Rightarrow> string list \<Rightarrow> string \<Rightarrow> string \<Rightarrow> world \<Rightarrow> string \<times> world" where
  "readStderr jb pass totalFrames [] stderrBuffer fullStderr w = (fullStderr, w)"
| "readStderr jb pass totalFrames (chunk # chunks) stderrBuffer fullStderr w =
     (let buf = stderrBuffer @ chunk;
          full = fullStderr @ chunk;
          w1 = (case progressOf jb pass totalFrames buf of
                  Some pr \<Rightarrow> emit (OnProgress pr) w
                | None \<Rightarrow> w);
          buf1 = (if length buf > 10000 then slice_last 1000 buf else buf)
      in readStderr jb pass totalFrames chunks buf1 full w1)"

subsection \<open>Running a job\<close>

definition passArgs ::
  "env \<Rightarrow> TranscodeJob \<Rightarrow> string \<Rightarrow> bool \<Rightarrow> string \<Rightarrow> nat \<Rightarrow> bool \<Rightarrow> string list" where
  "passArgs e jb passLogFile useHw scaleFilterStr pass isLastPass =
     [''-y'']
     @ (if useHw then buildHWAccelInputArgs (j_hwAccel jb) else [])
     @ [''-i'', j_inputPath jb]
     @ [''-vf'', scaleFilterStr]
     @ (if j_codec jb = VP9
        then buildVP9Args (j_rendition jb) (j_settings jb) pass passLogFile (j_hwAccel jb)
        else buildHEVCArgs (j_rendition jb) (j_settings jb) (j_hwAccel jb))
     @ (if isLastPass then [''-an'', j_outputPath jb]
        else [''-an'', ''-f'', ''null'',
              (if platform e = ''win32'' then ''NUL'' else ''/dev/null'')])"

text \<open>\<open>runPass\<close>: a non-zero exit status is the thrown error, with its message.\<close>

definition runPass ::
  "env \<Rightarrow> TranscodeJob \<Rightarrow> string \<Rightarrow> bool \<Rightarrow> string \<Rightarrow> jsnum \<Rightarrow> nat \<Rightarrow> bool \<Rightarrow> world
     \<Rightarrow> (string + unit) \<times> world" where
  "runPass e jb passLogFile useHw scaleFilterStr totalFrames pass isLastPass w =
     (let args = passArgs e jb passLogFile useHw scaleFilterStr pass isLastPass;
          (res, w1) = spawn_ffmpeg e args w;
          (fullStderr, w2) = readStderr jb pass totalFrames (stderr_chunks res) [] [] w1
      in if exitCode res \<noteq> 0
         then (Inl (''FFmpeg exited with code '' @ show_int (exitCode res) @ [CHR 0x0A]
                    @ slice_last 2000 fullStderr), w2)
         else (Inr (), emit (OnPassComplete pass (j_codec jb) (quality (j_rendition jb))) w2))"

text \<open>The body of the \<open>try\<close> block of \<open>transcodeRendition\<close>: two passes for VP9 when
  the settings ask for two, one pass otherwise; the first failing pass ends it.\<close>

definition runPasses ::
  "env \<Rightarrow> TranscodeJob \<Rightarrow> string \<Rightarrow> bool \<Rightarrow> string \<Rightarrow> jsnum \<Rightarrow> world \<Rightarrow> (string + unit) \<times> world" where
  "runPasses e jb passLogFile useHw scaleFilterStr totalFrames w =
     (if j_codec jb = VP9 \<and> passes (j_settings jb) = 2 then
        (case runPass e jb passLogFile useHw scaleFilterStr totalFrames 1 False w of
           (Inl err, w1) \<Rightarrow> (Inl err, w1)
         | (Inr u, w1) \<Rightarrow> runPass e jb passLogFile useHw scaleFilterStr totalFrames 2 True w1)
      else runPass e jb passLogFile useHw scaleFilterStr totalFrames 1 True w)"

text \<open>
  \<open>transcodeRendition\<close>: \<open>Inr\<close> the output path it returns, \<open>Inl\<close> the message of the
  error it throws.
\<close>

definition transcodeRendition ::
  "env \<Rightarrow> string \<Rightarrow> string \<Rightarrow> Rendition \<Rightarrow> Codec \<Rightarrow> HWAccelInfo \<Rightarrow> MediaInfo
     \<Rightarrow> TranscodeSettings \<Rightarrow> bool \<Rightarrow> world \<Rightarrow> (string + string) \<times> world" where
  "transcodeRendition e inputPath outputDir rendition codec hwAccel mediaInfo settings
       skipIfExists w0 =
     (let outputFileName = getOutputFileName rendition codec;
          outputPath = path_join e outputDir outputFileName;
          passLogFile = path_join e outputDir (''ffmpeg2pass_'' @ quality_str (quality rendition));
          w = emit (LogSection (''Transcoding '' @ quality_str (quality rendition) @ '' ''
                                @ codec_upper codec)) w0
      in if skipIfExists \<and> file_exists w outputPath
         then (Inr outputPath, emit (OnComplete codec (quality rendition) outputPath) w)
         else
           (let totalFrames = Math_ceil (js_mul (duration mediaInfo) (frameRate (video mediaInfo)));
                tonemap = needsTonemap rendition codec hwAccel mediaInfo;
                useHw = useHwAccelInput codec hwAccel tonemap;
                scaleFilterStr = buildScaleFilter rendition hwAccel tonemap codec;
                jb = \<lparr> j_rendition = rendition, j_codec = codec, j_inputPath = inputPath,
                       j_outputPath = outputPath, j_hwAccel = hwAccel, j_settings = settings,
                       j_sourceInfo = mediaInfo \<rparr>
            in case runPasses e jb passLogFile useHw scaleFilterStr totalFrames w of
                 (Inr u, w') \<Rightarrow>
                   (Inr outputPath, emit (OnComplete codec (quality rendition) outputPath) w')
               | (Inl errorMessage, w') \<Rightarrow>
                   (Inl errorMessage, emit (OnError codec (quality rendition) errorMessage) w')))"

subsection \<open>Extraction of subtitle and audio streams\<close>

definition subtitleSuffix :: "SubtitleType \<Rightarrow> string" where
  "subtitleSuffix t = (if t = forced then ''_forced'' else if t = sdh then ''_sdh'' else [])"

definition subtitleFileName :: "SubtitleStream \<Rightarrow> string" where
  "subtitleFileName stream =
     ''sub_'' @ s_language stream @ subtitleSuffix (s_type stream) @ ''.vtt''"

definition subtitleArgs :: "string \<Rightarrow> nat \<Rightarrow> string \<Rightarrow> string list" where
  "subtitleArgs inputPath idx outputPath =
     [''-y'', ''-i'', inputPath, ''-map'', ''0:s:'' @ show_nat idx, ''-c:s'', ''webvtt'',
      outputPath]"

text \<open>The loop of \<open>extractSubtitles\<close> from position \<open>idx\<close> on.\<close>

fun extractSubtitlesFrom ::
  "env \<Rightarrow> string \<Rightarrow> string \<Rightarrow> bool \<Rightarrow> nat \<Rightarrow> SubtitleStream list \<Rightarrow> (nat \<rightharpoonup> string) \<Rightarrow> world
     \<Rightarrow> (nat \<rightharpoonup> string) \<times> world" where
  "extractSubtitlesFrom e inputPath outputDir skipIfExists idx [] outputPaths w = (outputPaths, w)"
| "extractSubtitlesFrom e inputPath outputDir skipIfExists idx (stream # rest) outputPaths w =
     (let outputPath = path_join e outputDir (subtitleFileName stream)
      in if skipIfExists \<and> file_exists w outputPath
         then extractSubtitlesFrom e inputPath outputDir skipIfExists (Suc idx) rest
                (outputPaths(idx \<mapsto> outputPath)) w
         else
           (let (res, w1) = spawn_ffmpeg e (subtitleArgs inputPath idx outputPath) w
            in if exitCode res = 0
               then extractSubtitlesFrom e inputPath outputDir skipIfExists (Suc idx) rest
                      (outputPaths(idx \<mapsto> outputPath)) w1
               else extractSubtitlesFrom e inputPath outputDir skipIfExists (Suc idx) rest
                      outputPaths w1))"

definition extractSubtitles ::
  "env \<Rightarrow> string \<Rightarrow> string \<Rightarrow> SubtitleStream list \<Rightarrow> bool \<Rightarrow> world
     \<Rightarrow> (nat \<rightharpoonup> string) \<times> world" where
  "extractSubtitles e inputPath outputDir streams skipIfExists w =
     extractSubtitlesFrom e inputPath outputDir skipIfExists 0 streams Map.empty
       (emit (LogSection ''Extracting Subtitles'') w)"

definition audioFileName :: "AudioStream \<Rightarrow> nat \<Rightarrow> string" where
  "audioFileName stream idx = ''audio_'' @ a_language stream @ ''_'' @ show_nat idx @ ''.mp4''"

definition audioArgs :: "string \<Rightarrow> AudioStream \<Rightarrow> nat \<Rightarrow> string \<Rightarrow> string list" where
  "audioArgs inputPath stream idx outputPath =
     [''-y'', ''-i'', inputPath, ''-map'', ''0:a:'' @ show_nat idx, ''-c:a'',
      getAudioCodec stream, ''-b:a'', getAudioBitrate stream, ''-vn'', outputPath]"

text \<open>The loop of \<open>extractAudio\<close> from position \<open>idx\<close> on.\<close>

fun extractAudioFrom ::
  "env \<Rightarrow> string \<Rightarrow> string \<Rightarrow> bool \<Rightarrow> nat \<Rightarrow> AudioStream list \<Rightarrow> (nat \<rightharpoonup> string) \<Rightarrow> world
     \<Rightarrow> (nat \<rightharpoonup> string) \<times> world" where
  "extractAudioFrom e inputPath outputDir skipIfExists idx [] outputPaths w = (outputPaths, w)"
| "extractAudioFrom e inputPath outputDir skipIfExists idx (stream # rest) outputPaths w =
     (let outputPath = path_join e outputDir (audioFileName stream idx)
      in if skipIfExists \<and> file_exists w outputPath
         then extractAudioFrom e inputPath outputDir skipIfExists (Suc idx) rest
                (outputPaths(idx \<mapsto> outputPath)) w
         else
           (let (res, w1) = spawn_ffmpeg e (audioArgs inputPath stream idx outputPath) w
            in if exitCode res = 0
               then extractAudioFrom e inputPath outputDir skipIfExists (Suc idx) rest
                      (outputPaths(idx \<mapsto> outputPath)) w1
               else extractAudioFrom e inputPath outputDir skipIfExists (Suc idx) rest
                      outputPaths w1))"

definition extractAudio ::
  "env \<Rightarrow> string \<Rightarrow> string \<Rightarrow> AudioStream list \<Rightarrow> bool \<Rightarrow> world
     \<Rightarrow> (nat \<rightharpoonup> string) \<times> world" where
  "extractAudio e inputPath outputDir streams skipIfExists w =
     extractAudioFrom e inputPath outputDir skipIfExists 0 streams Map.empty
       (emit (LogSection ''Extracting Audio'') w)"

section \<open>Packager inputs (packager.ts)\<close>

datatype PackagerInputType = PVideo | PAudio | PSubtitle

record PackagerInput =
  pi_type :: PackagerInputType
  pi_filePath :: string
  pi_codec :: string
  pi_quality :: "RenditionQuality option"
  pi_language :: "string option"
  pi_label :: "string option"
  pi_subtitleType :: "SubtitleType option"
  pi_isDefault :: "bool option"
  pi_index :: "nat option"

record VideoFile =
  vf_path :: string
  vf_quality :: RenditionQuality
  vf_codec :: Codec

record AudioFile =
  af_path :: string
  af_language :: string
  af_label :: "string option"
  af_index :: nat

record SubtitleFile =
  sf_path :: string
  sf_language :: string
  sf_label :: "string option"
  sf_type :: SubtitleType
  sf_isDefault :: "bool option"

definition preparePackagerInputs ::
  "VideoFile list \<Rightarrow> AudioFile list \<Rightarrow> SubtitleFile list \<Rightarrow> PackagerInput list" where
  "preparePackagerInputs videoFiles audioFiles subtitleFiles =
     map (\<lambda>v. \<lparr> pi_type = PVideo, pi_filePath = vf_path v, pi_codec = codec_str (vf_codec v),
                 pi_quality = Some (vf_quality v), pi_language = None, pi_label = None,
                 pi_subtitleType = None, pi_isDefault = None, pi_index = None \<rparr>) videoFiles
     @ map (\<lambda>a. \<lparr> pi_type = PAudio, pi_filePath = af_path a, pi_codec = ''aac'',
                   pi_quality = None, pi_language = Some (af_language a), pi_label = af_label a,
                   pi_subtitleType = None, pi_isDefault = None,
                   pi_index = Some (af_index a) \<rparr>) audioFiles
     @ map (\<lambda>s. \<lparr> pi_type = PSubtitle, pi_filePath = sf_path s, pi_codec = ''webvtt'',
                   pi_quality = None, pi_language = Some (sf_language s), pi_label = sf_label s,
                   pi_subtitleType = Some (sf_type s), pi_isDefault = sf_isDefault s,
                   pi_index = None \<rparr>) subtitleFiles"

section \<open>The orchestrator (App.tsx, startTranscoding)\<close>

definition filterRenditions :: "Rendition list \<Rightarrow> RenditionQuality list \<Rightarrow> Rendition list" where
  "filterRenditions renditions selectedQualities =
     filter (\<lambda>r. quality r \<in> set selectedQualities) renditions"

text \<open>\<open>if (p) videoFiles.push(...)\<close> after a job that returned; nothing after one that
  threw (the empty \<open>catch\<close>).\<close>

definition pushVideoFile ::
  "(string + string) \<Rightarrow> RenditionQuality \<Rightarrow> Codec \<Rightarrow> VideoFile list \<Rightarrow> VideoFile list" where
  "pushVideoFile r q c videoFiles =
     (case r of
        Inr p \<Rightarrow>
          if p \<noteq> [] then videoFiles @ [\<lparr> vf_path = p, vf_quality = q, vf_codec = c \<rparr>]
          else videoFiles
      | Inl err \<Rightarrow> videoFiles)"

text \<open>The loop over the selected renditions: VP9, then HEVC, for each.\<close>

fun transcodeLoop ::
  "env \<Rightarrow> string \<Rightarrow> string \<Rightarrow> HWAccelInfo \<Rightarrow> HWAccelInfo \<Rightarrow> MediaInfo \<Rightarrow> TranscodeSettings \<Rightarrow> bool
     \<Rightarrow> Rendition list \<Rightarrow> VideoFile list \<Rightarrow> world \<Rightarrow> VideoFile list \<times> world" where
  "transcodeLoop e sourcePath tmpDir vp9HWAccel hevcHWAccel mediaInfo settings skipIfExists
       [] videoFiles w = (videoFiles, w)"
| "transcodeLoop e sourcePath tmpDir vp9HWAccel hevcHWAccel mediaInfo settings skipIfExists
       (rendition # rest) videoFiles w =
     (let (r1, w1) = transcodeRendition e sourcePath tmpDir rendition VP9 vp9HWAccel mediaInfo
                       settings skipIfExists w;
          videoFiles1 = pushVideoFile r1 (quality rendition) VP9 videoFiles;
          (r2, w2) = transcodeRendition e sourcePath tmpDir rendition HEVC hevcHWAccel mediaInfo
                       settings skipIfExists w1;
          videoFiles2 = pushVideoFile r2 (quality rendition) HEVC videoFiles1
      in transcodeLoop e sourcePath tmpDir vp9HWAccel hevcHWAccel mediaInfo settings skipIfExists
           rest videoFiles2 w2)"

text \<open>
  \<open>startTranscoding\<close> from the extraction of the subtitles to the list of inputs that
  it hands to \<open>runPackager\<close>. The maps that the two extractions return are not kept.
\<close>

definition startTranscoding ::
  "env \<Rightarrow> bool \<Rightarrow> MediaInfo \<Rightarrow> string \<Rightarrow> string \<Rightarrow> Rendition list \<Rightarrow> RenditionQuality list
     \<Rightarrow> HWAccelInfo \<Rightarrow> HybridHWAccel option \<Rightarrow> world \<Rightarrow> PackagerInput list \<times> world" where
  "startTranscoding e devMode mediaInfo sourcePath outputPath availableRenditions
       renditionQualities hwAccel hybrid w =
     (let tmpDir = path_join e outputPath ''tmp'';
          renditions = filterRenditions availableRenditions renditionQualities;
          settings = getTranscodeSettings (if devMode then dev else prod);
          skipIfExists = devMode;
          w1 = (if subtitleStreams mediaInfo \<noteq> []
                then snd (extractSubtitles e sourcePath tmpDir (subtitleStreams mediaInfo)
                            skipIfExists w)
                else w);
          w2 = (if audioStreams mediaInfo \<noteq> []
                then snd (extractAudio e sourcePath tmpDir (audioStreams mediaInfo)
                            skipIfExists w1)
                else w1);
          vp9HWAccel = (case hybrid of Some h \<Rightarrow> vp9 h | None \<Rightarrow> hwAccel);
          hevcHWAccel = (case hybrid of Some h \<Rightarrow> hevc h | None \<Rightarrow> hwAccel);
          (videoFiles, w3) = transcodeLoop e sourcePath tmpDir vp9HWAccel hevcHWAccel mediaInfo
                               settings skipIfExists renditions [] w2;
          audioFiles = map (\<lambda>(idx, s).
                         \<lparr> af_path = path_join e tmpDir
                               (''audio_'' @ a_language s @ ''_'' @ show_nat idx @ ''.mp4''),
                           af_language = a_language s, af_label = a_title s, af_index = idx \<rparr>)
                         (enumerate 0 (audioStreams mediaInfo));
          subtitleFiles = map (\<lambda>s.
                         \<lparr> sf_path = path_join e tmpDir
                               (''sub_'' @ s_language s @ subtitleSuffix (s_type s) @ ''.vtt''),
                           sf_language = s_language s, sf_label = s_title s, sf_type = s_type s,
                           sf_isDefault = Some (s_isDefault s) \<rparr>)
                         (subtitleStreams mediaInfo);
          inputs = preparePackagerInputs videoFiles audioFiles subtitleFiles
      in (inputs, w3))"

section \<open>Reading the trace\<close>

text \<open>The sections opened, the completions reported (as the video file each one names) and
  the progress snapshots of a list of events, in order.\<close>

fun sections_of :: "event list \<Rightarrow> string list" where
  "sections_of [] = []"
| "sections_of (LogSection s # es) = s # sections_of es"
| "sections_of (ev # es) = sections_of es"

fun completions_of :: "event list \<Rightarrow> VideoFile list" where
  "completions_of [] = []"
| "completions_of (OnComplete c q p # es) =
     \<lparr> vf_path = p, vf_quality = q, vf_codec = c \<rparr> # completions_of es"
| "completions_of (ev # es) = completions_of es"

fun progress_of :: "event list \<Rightarrow> TranscodeProgress list" where
  "progress_of [] = []"
| "progress_of (OnProgress pr # es) = pr # progress_of es"
| "progress_of (ev # es) = progress_of es"



section \<open>Example inputs\<close>

text \<open>An environment on which every encoder run succeeds, writes nothing to its diagnostic
  stream and creates its last argument (the output file).\<close>

definition example_env :: env where
  "example_env =
     \<lparr> path_join = (\<lambda>d f. d @ ''/'' @ f), platform = ''linux'',
       ffmpeg = (\<lambda>args fs. \<lparr> stderr_chunks = [], exitCode = 0, files_after = last args # fs \<rparr>) \<rparr>"

text \<open>A ten-second 4K HDR10 source at 25 frames per second, with one 5.1 audio track and two
  English subtitle tracks of the standard type.\<close>

definition example_media :: MediaInfo where
  "example_media =
     \<lparr> filePath = ''in.mkv'', fileName = ''in.mkv'', duration = Fin 10, size = Fin 1000000,
       video = \<lparr> v_width = 3840, v_height = 2160, v_codec = ''hevc'', v_profile = ''Main 10'',
                 pixelFormat = ''yuv420p10le'', frameRate = Fin 25, v_bitrate = Fin 0,
                 hdrType = HDR10, colorPrimaries = Some ''bt2020'',
                 colorTransfer = Some ''smpte2084'', colorSpace = Some ''bt2020nc'' \<rparr>,
       audioStreams =
         [\<lparr> a_index = 0, a_codec = ''eac3'', channels = 6, channelLayout = surround51,
            sampleRate = Fin 48000, a_bitrate = Fin 0, a_language = ''en'', a_title = None,
            a_isDefault = True \<rparr>],
       subtitleStreams =
         [\<lparr> s_index = 0, s_codec = ''subrip'', s_language = ''en'', s_title = None,
            s_type = standard, s_isDefault = True \<rparr>,
          \<lparr> s_index = 1, s_codec = ''subrip'', s_language = ''en'',
            s_title = Some ''Commentary'', s_type = standard, s_isDefault = False \<rparr>] \<rparr>"

definition empty_world :: world where
  "empty_world = \<lparr> files = [], events = [] \<rparr>"



text \<open>An environment on which every audio extraction fails and every other run succeeds.\<close>

definition audio_fails_env :: env where
  "audio_fails_env =
     example_env\<lparr> ffmpeg := (\<lambda>args fs.
        if ''-c:a'' \<in> set args
        then \<lparr> stderr_chunks = [''Unknown encoder''], exitCode = 1, files_after = fs \<rparr>
        else \<lparr> stderr_chunks = [], exitCode = 0, files_after = last args # fs \<rparr>) \<rparr>"

text \<open>An environment on which the encoder reports frame 10, then frame 20, in two chunks
  of its diagnostic stream, and succeeds.\<close>

definition two_reports_env :: env where
  "two_reports_env =
     example_env\<lparr> ffmpeg := (\<lambda>args fs.
        \<lparr> stderr_chunks = [''frame=   10 fps= 25 q=28.0 speed=1.0x    '',
                             ''frame=   20 fps= 25 q=28.0 speed=1.0x    ''],
          exitCode = 0, files_after = last args # fs \<rparr>) \<rparr>"


section \<open>Properties of the media prober\<close>

lemma str_includes_sublist: "str_includes s sub \<longleftrightarrow> sublist sub s"
  by (induction s) (auto simp: sublist_Cons_right)

lemma hasDolbyVision_iff:
  "hasDolbyVision sds \<longleftrightarrow>
     (\<exists>sd\<in>set sds. \<exists>t. side_data_type sd = Some t \<and>
        (t = ''DOVI configuration record'' \<or> sublist ''Dolby Vision'' t))"
  unfolding hasDolbyVision_def list_ex_iff str_includes_sublist
  by (auto split: option.splits)

lemma hasHDR10Plus_iff:
  "hasHDR10Plus sds \<longleftrightarrow>
     (\<exists>sd\<in>set sds. \<exists>t. side_data_type sd = Some t \<and>
        (t = ''HDR Dynamic Metadata SMPTE2094-40 (HDR10+)'' \<or> sublist ''SMPTE2094-40'' t))"
  unfolding hasHDR10Plus_def list_ex_iff str_includes_sublist
  by (auto split: option.splits)

text \<open>
  Claim C4. The dynamic-range classification is ordered: a Dolby Vision side-data entry
  (type \<open>DOVI configuration record\<close>, or a type containing \<open>Dolby Vision\<close>) decides first,
  then an HDR10+ dynamic-metadata entry, and only then the static test (primaries
  \<open>bt2020\<close> and transfer \<open>smpte2084\<close>). So a stream with a Dolby Vision entry is
  \<open>DolbyVision\<close> whatever its color metadata, never \<open>HDR10\<close>.
\<close>

theorem detectHDRType_order:
  "detectHDRType st =
     (if \<exists>sds. side_data_list st = Some sds \<and>
           (\<exists>sd\<in>set sds. \<exists>t. side_data_type sd = Some t \<and>
              (t = ''DOVI configuration record'' \<or> sublist ''Dolby Vision'' t))
      then DolbyVision
      else if \<exists>sds. side_data_list st = Some sds \<and>
           (\<exists>sd\<in>set sds. \<exists>t. side_data_type sd = Some t \<and>
              (t = ''HDR Dynamic Metadata SMPTE2094-40 (HDR10+)'' \<or> sublist ''SMPTE2094-40'' t))
      then HDR10Plus
      else if color_primaries st = Some ''bt2020'' \<and> color_transfer st = Some ''smpte2084''
      then HDR10 else SDR)"
proof (cases "side_data_list st")
  case None
  then show ?thesis by (simp add: detectHDRType_def)
next
  case (Some sds)
  then show ?thesis
    unfolding detectHDRType_def Let_def hasDolbyVision_iff [symmetric] hasHDR10Plus_iff [symmetric]
    by simp
qed

theorem detectHDRType_order_witness:
  "detectHDRType dv_and_pq_stream = DolbyVision \<and> detectHDRType dv_and_pq_stream \<noteq> HDR10"
  using detectHDRType_order [of dv_and_pq_stream]
  by (simp add: dv_and_pq_stream_def)

section \<open>Properties of the rendition ladder\<close>

text \<open>
  Claim C5. \<open>buildRenditionLadder\<close> keeps exactly the catalog tiers whose height is at
  most the source height or whose width is at most the source width, in catalog order (the
  catalog has no repeated tier); a 3840x2160 source gets all five tiers, a 1920x1080 source
  gets 1080p, 720p and 480p, and a 960x480 source gets 480p only.
\<close>

theorem buildRenditionLadder_keeps:
  "set (buildRenditionLadder src) =
     {r \<in> set RENDITION_LADDER. r_height r \<le> v_height src \<or> r_width r \<le> v_width src}
   \<and> subseq (buildRenditionLadder src) RENDITION_LADDER
   \<and> distinct RENDITION_LADDER
   \<and> map quality (buildRenditionLadder (src\<lparr>v_width := 3840, v_height := 2160\<rparr>))
       = [Q2160p, Q1440p, Q1080p, Q720p, Q480p]
   \<and> map quality (buildRenditionLadder (src\<lparr>v_width := 1920, v_height := 1080\<rparr>))
       = [Q1080p, Q720p, Q480p]
   \<and> map quality (buildRenditionLadder (src\<lparr>v_width := 960, v_height := 480\<rparr>)) = [Q480p]"
proof -
  have a: "set (buildRenditionLadder src) =
     {r \<in> set RENDITION_LADDER. r_height r \<le> v_height src \<or> r_width r \<le> v_width src}"
    unfolding buildRenditionLadder_def by (rule set_filter)
  have b: "subseq (buildRenditionLadder src) RENDITION_LADDER"
    unfolding buildRenditionLadder_def by (rule subseq_filter_left)
  have c: "distinct RENDITION_LADDER" by (simp add: RENDITION_LADDER_def)
  have d: "map quality (buildRenditionLadder (src\<lparr>v_width := 3840, v_height := 2160\<rparr>))
       = [Q2160p, Q1440p, Q1080p, Q720p, Q480p]"
    by (simp add: buildRenditionLadder_def RENDITION_LADDER_def)
  have e: "map quality (buildRenditionLadder (src\<lparr>v_width := 1920, v_height := 1080\<rparr>))
       = [Q1080p, Q720p, Q480p]"
    by (simp add: buildRenditionLadder_def RENDITION_LADDER_def)
  have f: "map quality (buildRenditionLadder (src\<lparr>v_width := 960, v_height := 480\<rparr>)) = [Q480p]"
    by (simp add: buildRenditionLadder_def RENDITION_LADDER_def)
  from a b c d e f show ?thesis by blast
qed

section \<open>Properties of the frame rate\<close>

lemma split_on_no_sep: "d \<notin> set s \<Longrightarrow> split_on d s = [s]"
  by (induction s) auto

lemma split_on_append_sep:
  "d \<notin> set a \<Longrightarrow> split_on d (a @ d # b) = a # split_on d b"
  by (induction a) auto

lemma parseInt_cases:
  "parseInt s = NaN \<or> parseInt s = NegZero \<or> (\<exists>q. parseInt s = Fin q)"
  by (simp add: parseInt_def Let_def mk_zero_def)

lemma js_div_parseInt:
  "js_div (parseInt a) (parseInt b) =
     (let n = parseInt a; d = parseInt b
      in if n = NaN \<or> d = NaN \<or> (is_zero n \<and> is_zero d) then NaN
         else if is_zero d then mk_inf (is_neg n \<noteq> is_neg d)
         else if is_zero n then mk_zero (is_neg n \<noteq> is_neg d)
         else Fin (val n / val d))"
  using parseInt_cases[of a] parseInt_cases[of b]
  by (auto simp: js_div_def Let_def is_inf_def)

text \<open>
  What \<open>parseVideoInfo\<close> computes from a frame-rate string with at most one \<open>/\<close>: the
  denominator is \<open>1\<close> when it is absent or empty, and the quotient is replaced by 24 when
  it is \<open>NaN\<close>, that is when a part does not start with an integer or for zero over
  zero. (The integers of the model are exact: they are not rounded above \<open>2^53\<close> and a
  long run of digits does not become an infinity.)
\<close>

lemma parseVideoInfo_frameRate_nan_default:
  assumes "CHR ''/'' \<notin> set num" and "CHR ''/'' \<notin> set den"
    and "s = num @ ''/'' @ den \<or> (s = num \<and> num \<noteq> [] \<and> den = [])"
    and "avg_frame_rate st = Some s"
  shows "frameRate (parseVideoInfo st) =
           (let n = parseInt num; d = parseInt (if den = [] then ''1'' else den)
            in if n = NaN \<or> d = NaN \<or> (is_zero n \<and> is_zero d) then Fin 24
               else if is_zero d then mk_inf (is_neg n \<noteq> is_neg d)
               else if is_zero n then mk_zero (is_neg n \<noteq> is_neg d)
               else Fin (val n / val d))"
proof -
  have ne: "s \<noteq> []" using assms(3) by auto
  have parts: "split_on CHR ''/'' s = (if s = num then [num] else [num, den])"
    using assms(1,2,3) by (auto simp: split_on_no_sep split_on_append_sep)
  have den: "(if 1 < length (split_on CHR ''/'' s)
              then str_or (Some (split_on CHR ''/'' s ! 1)) ''1'' else ''1'')
             = (if den = [] then ''1'' else den)"
    unfolding parts using assms(3) by (auto simp: str_or_def)
  have "parseFrameRate (Some s) =
          (let q = js_div (parseInt num) (parseInt (if den = [] then ''1'' else den))
           in if q = NaN then Fin 24 else q)"
    unfolding parseFrameRate_def Let_def isNaN_def
    using ne den parts assms(3) by (auto simp: str_or_def)
  then show ?thesis
    unfolding parseVideoInfo_def using assms(4)
    by (simp add: js_div_parseInt Let_def mk_inf_def mk_zero_def)
qed

text \<open>
  Claim C6 does not hold of the code. The frame rate is to be 24 whenever the quotient is
  not finite, in particular for a zero denominator. The guard of the code is \<open>isNaN\<close>:
  it gives 24 for \<open>0/0\<close>, whose quotient is \<open>NaN\<close>, and lets the infinity of
  \<open>30/0\<close> through, so the frame rate of the source is infinite and so is the total
  number of frames that the transcoder computes from it for a ten-second source.
\<close>

theorem parseVideoInfo_frameRate_zero_den_infinite:
  "frameRate (parseVideoInfo (dv_and_pq_stream\<lparr>avg_frame_rate := Some ''0/0''\<rparr>)) = Fin 24
   \<and> frameRate (parseVideoInfo (dv_and_pq_stream\<lparr>avg_frame_rate := Some ''30/0''\<rparr>)) = PosInf
   \<and> frameRate (parseVideoInfo (dv_and_pq_stream\<lparr>avg_frame_rate := Some ''30/0''\<rparr>)) \<noteq> Fin 24
   \<and> Math_ceil (js_mul (Fin 10)
         (frameRate (parseVideoInfo (dv_and_pq_stream\<lparr>avg_frame_rate := Some ''30/0''\<rparr>))))
       = PosInf"
proof -
  have a: "frameRate (parseVideoInfo (dv_and_pq_stream\<lparr>avg_frame_rate := Some ''0/0''\<rparr>))
             = Fin 24"
    by (simp add: parseVideoInfo_def parseFrameRate_def str_or_def parseInt_def
        js_whitespace_def is_digit_def digits_val_def digit_val_def mk_zero_def mk_inf_def
        js_div_def is_zero_def is_inf_def is_neg_def isNaN_def Let_def)
  have b: "frameRate (parseVideoInfo (dv_and_pq_stream\<lparr>avg_frame_rate := Some ''30/0''\<rparr>))
             = PosInf"
    by (simp add: parseVideoInfo_def parseFrameRate_def str_or_def parseInt_def
        js_whitespace_def is_digit_def digits_val_def digit_val_def mk_zero_def mk_inf_def
        js_div_def is_zero_def is_inf_def is_neg_def isNaN_def Let_def)
  have c: "Math_ceil (js_mul (Fin 10) PosInf) = PosInf"
    by (simp add: Math_ceil_def js_mul_def is_zero_def is_inf_def is_neg_def mk_inf_def)
  from a b c show ?thesis by simp
qed

section \<open>Properties of the hybrid selection\<close>

lemma find_Some_mem: "find P xs = Some a \<Longrightarrow> a \<in> set xs \<and> P a"
  by (induction xs) (auto split: if_splits)

lemma findBestHevc_Some:
  "findBestHevc ms av = Some a \<Longrightarrow> a \<in> set av \<and> method a \<in> set ms"
  by (induction ms) (auto split: option.splits dest: find_Some_mem)

lemma findBestVP9_Some:
  "findBestVP9 ms av = Some a \<Longrightarrow>
     a \<in> set av \<and> method a \<in> set ms \<and> (truthy (supportsVP9HW a) \<or> method a = software)"
  by (induction ms) (auto split: option.splits if_splits dest: find_Some_mem)

lemma findBestHevc_None:
  "findBestHevc ms av = None \<Longrightarrow> m \<in> set ms \<Longrightarrow> m \<notin> method ` set av"
  by (induction ms) (auto split: option.splits simp: find_None_iff)

lemma findBestHevc_append:
  "findBestHevc (hs @ ms) av =
     (case findBestHevc hs av of Some a \<Rightarrow> Some a | None \<Rightarrow> findBestHevc ms av)"
  by (induction hs) (auto split: option.splits)

text \<open>As soon as one hardware backend is in the list, the HEVC side is a hardware backend
  of the list: software is the last method tried.\<close>

lemma bestHevc_hardware:
  assumes "b \<in> set av" "method b \<noteq> software"
  shows "bestHevc av \<in> set av \<and> method (bestHevc av) \<noteq> software"
proof -
  let ?hw = "[nvidia, qsv, amf, vaapi, videotoolbox]"
  have sp: "hevcPriority = ?hw @ [software]" by (simp add: hevcPriority_def)
  have mb: "method b \<in> set ?hw" using assms(2) by (cases "method b") auto
  have "findBestHevc ?hw av \<noteq> None"
    using findBestHevc_None[of ?hw av "method b"] mb assms(1) by blast
  then obtain a where a: "findBestHevc ?hw av = Some a" by blast
  have "bestHevc av = a"
    unfolding bestHevc_def sp findBestHevc_append a by simp
  moreover from findBestHevc_Some[OF a] have "a \<in> set av" "method a \<noteq> software" by auto
  ultimately show ?thesis by simp
qed

lemma bestVP9_cases:
  "bestVP9 av = SOFTWARE_CONFIG \<or>
   (bestVP9 av \<in> set av \<and> (truthy (supportsVP9HW (bestVP9 av)) \<or> method (bestVP9 av) = software))"
  unfolding bestVP9_def
  by (auto split: option.splits dest: findBestVP9_Some find_Some_mem)

lemma two_in_filter:
  assumes "a \<in> set xs" "b \<in> set xs" "P a" "P b" "a \<noteq> b"
  shows "2 \<le> length (filter P xs)"
proof -
  have "{a, b} \<subseteq> set (filter P xs)" using assms by auto
  then have "card {a, b} \<le> card (set (filter P xs))" by (intro card_mono) auto
  also have "\<dots> \<le> length (filter P xs)" by (rule card_length)
  finally show ?thesis using assms(5) by simp
qed

lemma detected_software_no_vp9:
  "a \<in> set (detectHWAcceleration hwAccels encoders) \<Longrightarrow> method a = software
     \<Longrightarrow> supportsVP9HW a \<noteq> Some True"
  by (auto simp: detectHWAcceleration_def HW_ACCEL_CONFIGS_def SOFTWARE_CONFIG_def
      split: if_splits)

text \<open>
  Claim C3. \<open>buildHybridConfig\<close> returns a pair only when the HEVC-side backend (first of
  nvidia, qsv, amf, vaapi, videotoolbox, software that the list has) and the VP9-side
  backend (first of qsv, vaapi, software that the list has, a hardware one being taken only
  if it reports hardware VP9 support) have different methods and the VP9 side reports
  hardware VP9 support. It returns none for every list with at most one hardware backend
  whose software entries do not report hardware VP9 support, and so for every list with at
  most one hardware backend that the detection produces: these are the lists that the
  function is called with, and their software entry is the constant without that flag.
\<close>

theorem buildHybridConfig_pair:
  "(buildHybridConfig available = Some p \<longrightarrow>
      hevc p = bestHevc available \<and> vp9 p = bestVP9 available
      \<and> method (hevc p) \<noteq> method (vp9 p) \<and> supportsVP9HW (vp9 p) = Some True)
   \<and> (hardware_count available \<le> 1
        \<and> (\<forall>a\<in>set available. method a = software \<longrightarrow> supportsVP9HW a \<noteq> Some True)
      \<longrightarrow> buildHybridConfig available = None)
   \<and> (hardware_count (detectHWAcceleration hwAccels encoders) \<le> 1
      \<longrightarrow> buildHybridConfig (detectHWAcceleration hwAccels encoders) = None)"
proof -
  have pair: "hevc p = bestHevc available \<and> vp9 p = bestVP9 available
      \<and> method (hevc p) \<noteq> method (vp9 p) \<and> supportsVP9HW (vp9 p) = Some True"
    if "buildHybridConfig available = Some p"
    using that by (auto simp: buildHybridConfig_def truthy_def split: if_splits)
  have none: "buildHybridConfig av = None"
    if h: "hardware_count av \<le> 1"
      and sw: "\<forall>a\<in>set av. method a = software \<longrightarrow> supportsVP9HW a \<noteq> Some True"
    for av
  proof (rule ccontr)
    assume "buildHybridConfig av \<noteq> None"
    then have d: "method (bestHevc av) \<noteq> method (bestVP9 av)"
      and t: "truthy (supportsVP9HW (bestVP9 av))"
      by (auto simp: buildHybridConfig_def split: if_splits)
    have "bestVP9 av \<noteq> SOFTWARE_CONFIG"
      using t by (auto simp: SOFTWARE_CONFIG_def truthy_def)
    with bestVP9_cases[of av] have v: "bestVP9 av \<in> set av" by auto
    with sw t have vh: "method (bestVP9 av) \<noteq> software" by (auto simp: truthy_def)
    from bestHevc_hardware[OF v vh]
    have hh: "bestHevc av \<in> set av" "method (bestHevc av) \<noteq> software"
      by auto
    from d have "bestHevc av \<noteq> bestVP9 av" by auto
    from two_in_filter[OF hh(1) v hh(2) vh this] h show False
      by (simp add: hardware_count_def)
  qed
  have det: "buildHybridConfig (detectHWAcceleration hwAccels encoders) = None"
    if "hardware_count (detectHWAcceleration hwAccels encoders) \<le> 1"
    using none[OF that] detected_software_no_vp9 by blast
  from pair none[of available] det show ?thesis by blast
qed

theorem buildHybridConfig_pair_witness:
  "buildHybridConfig [the (HW_ACCEL_CONFIGS nvidia), the (HW_ACCEL_CONFIGS qsv), SOFTWARE_CONFIG]
     = Some \<lparr> hevc = the (HW_ACCEL_CONFIGS nvidia), vp9 = the (HW_ACCEL_CONFIGS qsv) \<rparr>
   \<and> method (the (HW_ACCEL_CONFIGS nvidia)) \<noteq> method (the (HW_ACCEL_CONFIGS qsv))
   \<and> supportsVP9HW (the (HW_ACCEL_CONFIGS qsv)) = Some True
   \<and> hardware_count [the (HW_ACCEL_CONFIGS nvidia), SOFTWARE_CONFIG] \<le> 1
   \<and> buildHybridConfig [the (HW_ACCEL_CONFIGS nvidia), SOFTWARE_CONFIG] = None
   \<and> hardware_count (detectHWAcceleration [''qsv'', ''vaapi''] [''V..... hevc_qsv'']) \<le> 1
   \<and> buildHybridConfig (detectHWAcceleration [''qsv'', ''vaapi''] [''V..... hevc_qsv'']) = None"
proof -
  have a: "buildHybridConfig
             [the (HW_ACCEL_CONFIGS nvidia), the (HW_ACCEL_CONFIGS qsv), SOFTWARE_CONFIG]
           = Some \<lparr> hevc = the (HW_ACCEL_CONFIGS nvidia), vp9 = the (HW_ACCEL_CONFIGS qsv) \<rparr>"
    by (simp add: buildHybridConfig_def bestHevc_def bestVP9_def hevcPriority_def
        vp9Priority_def HW_ACCEL_CONFIGS_def SOFTWARE_CONFIG_def truthy_def)
  have b: "hardware_count [the (HW_ACCEL_CONFIGS nvidia), SOFTWARE_CONFIG] \<le> 1
           \<and> (\<forall>a\<in>set [the (HW_ACCEL_CONFIGS nvidia), SOFTWARE_CONFIG].
                 method a = software \<longrightarrow> supportsVP9HW a \<noteq> Some True)"
    by (simp add: hardware_count_def HW_ACCEL_CONFIGS_def SOFTWARE_CONFIG_def)
  have c: "hardware_count (detectHWAcceleration [''qsv'', ''vaapi''] [''V..... hevc_qsv'']) \<le> 1"
    by (simp add: hardware_count_def detectHWAcceleration_def hasEncoder_def
        HW_ACCEL_CONFIGS_def SOFTWARE_CONFIG_def)
  show ?thesis
    using buildHybridConfig_pair [of "[the (HW_ACCEL_CONFIGS nvidia),
          the (HW_ACCEL_CONFIGS qsv), SOFTWARE_CONFIG]"
        "\<lparr> hevc = the (HW_ACCEL_CONFIGS nvidia), vp9 = the (HW_ACCEL_CONFIGS qsv) \<rparr>"
        "[''qsv'', ''vaapi'']" "[''V..... hevc_qsv'']"]
      buildHybridConfig_pair [of "[the (HW_ACCEL_CONFIGS nvidia), SOFTWARE_CONFIG]"]
      a b c
    by simp
qed

section \<open>Properties of the plan of a job\<close>

text \<open>
  Claim C2. Tone-mapping is forced: with the VP9 codec, a QSV or VAAPI backend that reports
  hardware VP9 support and a source that is not SDR, the plan tone-maps, even when the
  rendition asks to preserve HDR. In every other case it tone-maps exactly when the rendition
  does not preserve HDR and the source is not SDR. The filter chain of the job starts with
  the software tone-map sequence exactly when the plan tone-maps.
\<close>

theorem needsTonemap_forced:
  "(codec = VP9 \<and> (method hwAccel = qsv \<or> method hwAccel = vaapi)
      \<and> supportsVP9HW hwAccel = Some True \<and> hdrType (video mediaInfo) \<noteq> SDR
    \<longrightarrow> needsTonemap rendition codec hwAccel mediaInfo)
   \<and> (\<not> (codec = VP9 \<and> (method hwAccel = qsv \<or> method hwAccel = vaapi)
          \<and> supportsVP9HW hwAccel = Some True \<and> hdrType (video mediaInfo) \<noteq> SDR)
    \<longrightarrow> needsTonemap rendition codec hwAccel mediaInfo
          = (\<not> preserveHDR rendition \<and> hdrType (video mediaInfo) \<noteq> SDR))
   \<and> (needsTonemap rendition codec hwAccel mediaInfo
        \<longleftrightarrow> prefix TONEMAP_FILTER_SOFTWARE
              (buildScaleFilter rendition hwAccel
                 (needsTonemap rendition codec hwAccel mediaInfo) codec))"
proof -
  have a: "prefix TONEMAP_FILTER_SOFTWARE (buildScaleFilter rendition hwAccel True codec)"
    by (simp add: buildScaleFilter_def Let_def)
  have b: "\<not> prefix TONEMAP_FILTER_SOFTWARE (buildScaleFilter rendition hwAccel False codec)"
    by (simp add: buildScaleFilter_def Let_def TONEMAP_FILTER_SOFTWARE_def)
  show ?thesis
    using a b by (cases "needsTonemap rendition codec hwAccel mediaInfo")
      (auto simp: needsTonemap_def truthy_def Let_def)
qed

theorem needsTonemap_forced_witness:
  "needsTonemap (RENDITION_LADDER ! 0) VP9 (the (HW_ACCEL_CONFIGS qsv)) example_media
   \<and> preserveHDR (RENDITION_LADDER ! 0)
   \<and> \<not> needsTonemap (RENDITION_LADDER ! 0) HEVC (the (HW_ACCEL_CONFIGS qsv)) example_media
   \<and> needsTonemap (RENDITION_LADDER ! 3) HEVC (the (HW_ACCEL_CONFIGS qsv)) example_media"
  using needsTonemap_forced [of VP9 "the (HW_ACCEL_CONFIGS qsv)" example_media
      "RENDITION_LADDER ! 0"]
    needsTonemap_forced [of HEVC "the (HW_ACCEL_CONFIGS qsv)" example_media
      "RENDITION_LADDER ! 0"]
    needsTonemap_forced [of HEVC "the (HW_ACCEL_CONFIGS qsv)" example_media
      "RENDITION_LADDER ! 3"]
  by (simp add: HW_ACCEL_CONFIGS_def example_media_def RENDITION_LADDER_def)

section \<open>The text of a number\<close>











lemma show_nat_0: "show_nat 0 = ''0''"
  by (simp add: show_nat.simps)


section \<open>Properties of the extraction loops\<close>





lemma file_exists_emit [simp]: "file_exists (emit ev w) p = file_exists w p"
  by (simp add: file_exists_def emit_def)

lemma file_exists_events_update [simp]: "file_exists (w\<lparr>events := evs\<rparr>) p = file_exists w p"
  by (simp add: file_exists_def)







section \<open>Properties of the rendition loop\<close>

lemma sections_of_append [simp]: "sections_of (a @ b) = sections_of a @ sections_of b"
  by (induction a rule: sections_of.induct) auto

lemma completions_of_append [simp]: "completions_of (a @ b) = completions_of a @ completions_of b"
  by (induction a rule: completions_of.induct) auto












section \<open>Properties of the progress extraction\<close>

lemma progress_of_append [simp]: "progress_of (a @ b) = progress_of a @ progress_of b"
  by (induction a rule: progress_of.induct) auto

text \<open>The percentage of a snapshot never exceeds 100, whatever the frame count and the
  total are (it is \<open>NaN\<close> when their quotient is).\<close>

lemma Math_min_100: "\<not> js_gt (Math_min x (Fin 100)) (Fin 100)"
  by (cases x) (auto simp: Math_min_def js_gt_def val_def)

lemma progressOf_percent_clamped:
  "progressOf jb pass totalFrames buf = Some pr \<Longrightarrow> \<not> js_gt (p_percent pr) (Fin 100)"
  by (auto simp: progressOf_def Let_def Math_min_100 split: option.splits)

lemma progressOf_first_report:
  "progressOf jb pass (Fin 250) ''frame=   10 fps= 25 q=28.0 speed=1.0x    ''
     = Some \<lparr> p_job = jb, p_pass = pass, p_frame = Fin 10, p_totalFrames = Fin 250,
              p_fps = Fin 25, p_speed = Fin 1, p_percent = Fin 4, p_eta = Fin (48 / 5) \<rparr>"
  by (simp add: progressOf_def match_here_def is_digit_def is_digit_or_dot_def js_whitespace_def
      parseInt_def parseFloat_def digits_val_def digit_val_def mk_zero_def
      Math_min_def js_mul_def js_div_def js_sub_def js_gt_def is_zero_def is_inf_def
      is_neg_def val_def mk_inf_def Let_def)

lemma progressOf_second_report:
  "progressOf jb pass (Fin 250)
       ''frame=   10 fps= 25 q=28.0 speed=1.0x    frame=   20 fps= 25 q=28.0 speed=1.0x    ''
     = Some \<lparr> p_job = jb, p_pass = pass, p_frame = Fin 10, p_totalFrames = Fin 250,
              p_fps = Fin 25, p_speed = Fin 1, p_percent = Fin 4, p_eta = Fin (48 / 5) \<rparr>"
  by (simp add: progressOf_def match_here_def is_digit_def is_digit_or_dot_def js_whitespace_def
      parseInt_def parseFloat_def digits_val_def digit_val_def mk_zero_def
      Math_min_def js_mul_def js_div_def js_sub_def js_gt_def is_zero_def is_inf_def
      is_neg_def val_def mk_inf_def Let_def)

lemma readStderr_two_reports:
  "progress_of (events (snd (readStderr jb pass (Fin 250)
       [''frame=   10 fps= 25 q=28.0 speed=1.0x    '',
        ''frame=   20 fps= 25 q=28.0 speed=1.0x    ''] [] [] w)))
   = progress_of (events w)
     @ [\<lparr> p_job = jb, p_pass = pass, p_frame = Fin 10, p_totalFrames = Fin 250,
              p_fps = Fin 25, p_speed = Fin 1, p_percent = Fin 4, p_eta = Fin (48 / 5) \<rparr>,
        \<lparr> p_job = jb, p_pass = pass, p_frame = Fin 10, p_totalFrames = Fin 250,
              p_fps = Fin 25, p_speed = Fin 1, p_percent = Fin 4, p_eta = Fin (48 / 5) \<rparr>]"
  by (simp add: progressOf_first_report progressOf_second_report emit_def Let_def)

text \<open>
  Claim C7 does not hold of the code. The encoder reports frame 10 in a first chunk of
  its diagnostic stream and frame 20 in a second one (a ten-second source at 25 frames per
  second, so 250 frames in all). The second snapshot should carry the most recent token,
  frame 20 and 8 percent; \<open>match\<close> without the global flag takes the leftmost token of
  the buffer, so both snapshots carry frame 10 and 4 percent.
\<close>

theorem progress_reports_first_token:
  "map p_frame (progress_of (events (snd (transcodeRendition two_reports_env ''in.mkv'' ''tmp''
      (RENDITION_LADDER ! 2) HEVC SOFTWARE_CONFIG example_media (getTranscodeSettings dev) False
      empty_world)))) = [Fin 10, Fin 10]
   \<and> map p_percent (progress_of (events (snd (transcodeRendition two_reports_env ''in.mkv''
      ''tmp'' (RENDITION_LADDER ! 2) HEVC SOFTWARE_CONFIG example_media
      (getTranscodeSettings dev) False empty_world)))) = [Fin 4, Fin 4]"
  by (simp add: transcodeRendition_def runPasses_def runPass_def spawn_ffmpeg_def
      two_reports_env_def example_env_def getTranscodeSettings_def example_media_def
      empty_world_def emit_def file_exists_def case_prod_beta Let_def
      js_mul_def Math_ceil_def is_zero_def is_inf_def val_def
      readStderr_two_reports del: readStderr.simps)

section \<open>Properties of the packager inputs\<close>

lemma filter_map_const_True: "(\<And>x. P (f x)) \<Longrightarrow> filter P (map f xs) = map f xs"
  by (induction xs) auto

lemma filter_map_const_False: "(\<And>x. \<not> P (f x)) \<Longrightarrow> filter P (map f xs) = []"
  by (induction xs) auto

lemma preparePackagerInputs_audio:
  "filter (\<lambda>i. pi_type i = PAudio) (preparePackagerInputs videoFiles audioFiles subtitleFiles)
   = map (\<lambda>a. \<lparr> pi_type = PAudio, pi_filePath = af_path a, pi_codec = ''aac'',
                   pi_quality = None, pi_language = Some (af_language a), pi_label = af_label a,
                   pi_subtitleType = None, pi_isDefault = None,
                   pi_index = Some (af_index a) \<rparr>) audioFiles"
  unfolding preparePackagerInputs_def filter_append
  by (simp add: filter_map_const_True filter_map_const_False)

lemma startTranscoding_audio_inputs:
  "filter (\<lambda>i. pi_type i = PAudio)
     (fst (startTranscoding e devMode mediaInfo sourcePath outputPath availableRenditions
             renditionQualities hwAccel hybrid w))
   = map (\<lambda>(idx, s).
        \<lparr> pi_type = PAudio,
          pi_filePath = path_join e (path_join e outputPath ''tmp'')
                          (''audio_'' @ a_language s @ ''_'' @ show_nat idx @ ''.mp4''),
          pi_codec = ''aac'', pi_quality = None, pi_language = Some (a_language s),
          pi_label = a_title s, pi_subtitleType = None, pi_isDefault = None,
          pi_index = Some idx \<rparr>) (enumerate 0 (audioStreams mediaInfo))"
  unfolding startTranscoding_def Let_def case_prod_beta fst_conv preparePackagerInputs_audio
  by (simp add: case_prod_beta)

text \<open>
  Claim C9 does not hold of the code. On a source with one audio track whose extraction
  fails, \<open>extractAudio\<close> returns the empty map, and the inputs handed to the packager
  still have the descriptor of that track, with the path of the file that was never
  written: the descriptors are built from the streams of the source, not from the map.
\<close>

theorem audio_descriptor_despite_failed_extraction:
  "fst (extractAudio audio_fails_env ''in.mkv'' ''out/tmp'' (audioStreams example_media) False
          empty_world) = Map.empty
   \<and> filter (\<lambda>i. pi_type i = PAudio)
        (fst (startTranscoding audio_fails_env False (example_media\<lparr>subtitleStreams := []\<rparr>)
                ''in.mkv'' ''out'' RENDITION_LADDER [Q480p] SOFTWARE_CONFIG None empty_world))
     = [\<lparr> pi_type = PAudio, pi_filePath = ''out/tmp/audio_en_0.mp4'', pi_codec = ''aac'',
          pi_quality = None, pi_language = Some ''en'', pi_label = None,
          pi_subtitleType = None, pi_isDefault = None, pi_index = Some 0 \<rparr>]"
proof -
  have a: "fst (extractAudio audio_fails_env ''in.mkv'' ''out/tmp'' (audioStreams example_media)
                  False empty_world) = Map.empty"
    by (simp add: audio_fails_env_def example_env_def extractAudio_def
        audioArgs_def spawn_ffmpeg_def emit_def file_exists_def empty_world_def
        example_media_def Let_def)
  have b: "filter (\<lambda>i. pi_type i = PAudio)
        (fst (startTranscoding audio_fails_env False (example_media\<lparr>subtitleStreams := []\<rparr>)
                ''in.mkv'' ''out'' RENDITION_LADDER [Q480p] SOFTWARE_CONFIG None empty_world))
     = [\<lparr> pi_type = PAudio, pi_filePath = ''out/tmp/audio_en_0.mp4'', pi_codec = ''aac'',
          pi_quality = None, pi_language = Some ''en'', pi_label = None,
          pi_subtitleType = None, pi_isDefault = None, pi_index = Some 0 \<rparr>]"
    unfolding startTranscoding_audio_inputs
    by (simp add: audio_fails_env_def example_env_def example_media_def enumerate_eq_zip
        show_nat_0)
  from a b show ?thesis by (rule conjI)
qed

end
